theory Spec2Isabelle
  imports Main
begin

section \<open>Data model of the bot (src/bot.py)\<close>

text \<open>
  The bot is one Python module of four Telegram handlers (\<open>start\<close>, \<open>button_handler\<close>,
  \<open>color_button_handler\<close>, \<open>handle_message\<close>) and the pure helper \<open>generate_qr\<close>.
  Its state lives in three places: the two database tables \<open>users\<close> and \<open>history\<close>, and the
  per-user dictionary \<open>context.user_data\<close>. A handler is modelled as a function from the
  state to an outcome: the exception it raised (if any), the messages it sent, in order,
  and the state it left behind.

  Python strings are modelled as \<open>string\<close>. The only character the code inspects is the
  ASCII pipe, whose byte never occurs inside a multi-byte UTF-8 sequence, so splitting a
  UTF-8 byte string at pipes and splitting the code-point string at pipes agree.
\<close>

type_synonym rgb = "nat \<times> nat \<times> nat"
type_synonym rgba = "nat \<times> nat \<times> nat \<times> nat"

datatype error =
    DataOverflowError   \<comment> \<open>raised by the QR library: the text fits no version\<close>
  | StoreUnavailable    \<comment> \<open>raised by the database session: the store cannot be reached\<close>
  | ValueError          \<comment> \<open>tuple unpacking of a split with the wrong number of parts\<close>

record tg_user =
  tg_id :: int
  tg_first_name :: string

text \<open>Rows of the tables \<open>users\<close> (class \<open>User\<close>) and \<open>history\<close> (class \<open>QRHistory\<close>).
  The autoincrement primary key is the position in the table.\<close>

record user_row =
  u_user_id :: string
  u_name :: string
  u_created_at :: int

record qr_history =
  h_user_id :: string
  h_data :: string
  h_fill_color :: string
  h_bg_color :: string
  h_created_at :: int

subsection \<open>Images\<close>

datatype image_format = PNG | JPEG | GIF
datatype image_mode = Mode_1 | Mode_RGB | Mode_RGBA

text \<open>An encoded image file, represented by what a decoder reads back from it: the
  container format, the pixel mode, the dimensions and the rows of pixels.\<close>

record image_file =
  file_format :: image_format
  file_mode :: image_mode
  file_width :: nat
  file_height :: nat
  file_pixels :: "rgba list list"

subsection \<open>Messages sent to the transport\<close>

datatype keyboard = MainKeyboard | BackToMenuKeyboard | ColorKeyboard

text \<open>The message texts of the source are fixed (Russian) strings; each is one
  constructor. The history message lists its items in order.\<close>

datatype message =
    WelcomeUser string
  | WelcomeAnon
  | ChooseColors
  | HistoryList "qr_history list"
  | NoHistory
  | HelpText
  | DonateText
  | ColorChosen
  | QRCaption

datatype photo = LogoFile | QRPhoto image_file

datatype reply =
    AnswerCallback
  | ReplyText message keyboard
  | ReplyPhoto photo message keyboard
  | EditMessageText message keyboard
  | EditMessageCaption message keyboard

subsection \<open>State, environment and outcome\<close>

record bot_state =
  users :: "user_row list"
  history :: "qr_history list"
  user_data :: "int \<Rightarrow> (string \<rightharpoonup> string)"

text \<open>What a handler reads from outside the program while it runs: whether the database
  answers, whether \<open>logo.png\<close> exists, the clock, and whether the message a callback
  query came from has a text body (\<open>edit_message_text\<close> succeeds) or is a photo.\<close>

record env =
  db_available :: bool
  logo_exists :: bool
  utcnow :: int
  text_editable :: bool

record outcome =
  raised :: "error option"
  sent :: "reply list"
  final :: bot_state

definition returns :: "reply list \<Rightarrow> bot_state \<Rightarrow> outcome" where
  "returns rs s = \<lparr>raised = None, sent = rs, final = s\<rparr>"

definition raises :: "error \<Rightarrow> reply list \<Rightarrow> bot_state \<Rightarrow> outcome" where
  "raises e rs s = \<lparr>raised = Some e, sent = rs, final = s\<rparr>"

section \<open>Python built-ins used by the handlers\<close>

text \<open>\<open>s.split(sep)\<close> for a one-character separator: one part more than there are
  separators, never an empty list.\<close>

fun str_split :: "char \<Rightarrow> string \<Rightarrow> string list" where
  "str_split sep [] = [[]]"
| "str_split sep (c # cs) =
     (if c = sep then [] # str_split sep cs
      else (case str_split sep cs of
              [] \<Rightarrow> [[c]]
            | p # ps \<Rightarrow> (c # p) # ps))"

text \<open>\<open>sep.join(parts)\<close>, used to write payloads down.\<close>

fun str_join :: "char \<Rightarrow> string list \<Rightarrow> string" where
  "str_join sep [] = []"
| "str_join sep [p] = p"
| "str_join sep (p # q # ps) = p @ sep # str_join sep (q # ps)"

text \<open>\<open>d.get(key, default)\<close>.\<close>

definition dict_get :: "('k \<rightharpoonup> 'v) \<Rightarrow> 'k \<Rightarrow> 'v \<Rightarrow> 'v" where
  "dict_get d k dflt = (case d k of None \<Rightarrow> dflt | Some v \<Rightarrow> v)"

text \<open>\<open>str(n)\<close> for an integer: its decimal digits, with a minus sign when negative.\<close>

definition digit_char :: "nat \<Rightarrow> char" where
  "digit_char d = ''0123456789'' ! d"

function str_nat :: "nat \<Rightarrow> string" where
  "str_nat n = (if n < 10 then [digit_char n] else str_nat (n div 10) @ [digit_char (n mod 10)])"
  by pat_completeness auto
termination
  by (relation "measure id") auto

definition str_int :: "int \<Rightarrow> string" where
  "str_int i = (if i < 0 then CHR ''-'' # str_nat (nat (- i)) else str_nat (nat i))"

text \<open>\<open>s.startswith(p)\<close>.\<close>

definition startswith :: "string \<Rightarrow> string \<Rightarrow> bool" where
  "startswith s p = (take (length p) s = p)"

section \<open>The libraries behind \<open>generate_qr\<close>\<close>

text \<open>
  \<open>generate_qr\<close> calls Pillow (\<open>ImageColor.getrgb\<close>, \<open>convert\<close>, \<open>save\<close>) and the
  \<open>qrcode\<close> package (\<open>QRCode\<close>, \<open>add_data\<close>, \<open>make_image\<close>). Neither is part of the
  repository. What the repository cannot decide is taken as a parameter:
  \<^item> \<open>getrgb\<close>: the colour a string resolves to, \<open>None\<close> where Pillow raises \<open>ValueError\<close>;
  \<^item> \<open>holds\<close>: whether a symbol of a given error-correction level and version can hold a
    text losslessly (the capacity tables of the QR standard);
  \<^item> \<open>place\<close>: the module grid of a text at a given level and version (data encoding,
    Reed-Solomon blocks, function patterns, masking).
\<close>

datatype ec_level = ERROR_CORRECT_L | ERROR_CORRECT_M | ERROR_CORRECT_Q | ERROR_CORRECT_H

record qr_lib =
  getrgb :: "string \<Rightarrow> rgb option"
  holds :: "ec_level \<Rightarrow> nat \<Rightarrow> string \<Rightarrow> bool"
  place :: "ec_level \<Rightarrow> nat \<Rightarrow> string \<Rightarrow> bool list list"

text \<open>The keyword arguments of \<open>qrcode.QRCode(...)\<close>.\<close>

record qr_settings =
  version :: nat
  error_correction :: ec_level
  box_size :: nat
  border :: nat

text \<open>The QRMatrix of the specification: a grid of dark/light modules with its declared
  module count and border width, and the version and level it was built at.\<close>

record qr_matrix =
  mx_version :: nat
  mx_level :: ec_level
  mx_count :: nat
  mx_border :: nat
  mx_modules :: "bool list list"

text \<open>
  Modelled from the spec: the version selection of the \<open>qrcode\<close> package (called inside
  \<open>make_image\<close>) is not under src/. Section 4.2: the lowest version sufficient to hold the
  text losslessly is selected, starting from the configured version and growing; 40 is
  the largest version of the symbology.
\<close>

definition best_fit :: "qr_lib \<Rightarrow> ec_level \<Rightarrow> nat \<Rightarrow> string \<Rightarrow> nat option" where
  "best_fit L lvl first text = List.find (\<lambda>v. holds L lvl v text) [first..<41]"

text \<open>
  Modelled from the spec: the encoder of the \<open>qrcode\<close> package is not under src/.
  Section 4.2: \<open>encode\<close> yields the matrix at the selected version and the fixed level, and
  a capacity error (the package's \<open>DataOverflowError\<close>) when the text exceeds the largest
  version. A version \<open>v\<close> symbol has \<open>17 + 4 v\<close> modules per side.
\<close>

definition encode :: "qr_lib \<Rightarrow> qr_settings \<Rightarrow> string \<Rightarrow> error + qr_matrix" where
  "encode L cfg text =
     (case best_fit L (error_correction cfg) (version cfg) text of
        None \<Rightarrow> Inl DataOverflowError
      | Some v \<Rightarrow>
          Inr \<lparr>mx_version = v, mx_level = error_correction cfg, mx_count = 17 + 4 * v,
               mx_border = border cfg,
               mx_modules = place L (error_correction cfg) v text\<rparr>)"

text \<open>Whether module \<open>(row, col)\<close> of a grid is dark; outside the grid nothing is.\<close>

definition is_dark :: "bool list list \<Rightarrow> nat \<Rightarrow> nat \<Rightarrow> bool" where
  "is_dark g row col = (row < length g \<and> col < length (g ! row) \<and> g ! row ! col)"

text \<open>
  Modelled from the spec: the renderer of the \<open>qrcode\<close> package (\<open>make_image\<close>) is not
  under src/. Section 4.3: each module becomes a \<open>boxSize \<times> boxSize\<close> block of pixels, and
  a border of \<open>border\<close> modules, filled with the background, surrounds the matrix on all
  sides; no anti-aliasing. \<open>render_pixel\<close> is the colour of pixel \<open>(x, y)\<close>.
\<close>

definition render_pixel :: "qr_matrix \<Rightarrow> nat \<Rightarrow> rgb \<Rightarrow> rgb \<Rightarrow> nat \<Rightarrow> nat \<Rightarrow> rgb" where
  "render_pixel m box fill background x y =
     (let col = x div box; row = y div box in
      if mx_border m \<le> col \<and> col < mx_border m + mx_count m
         \<and> mx_border m \<le> row \<and> row < mx_border m + mx_count m
         \<and> is_dark (mx_modules m) (row - mx_border m) (col - mx_border m)
      then fill else background)"

record raster =
  r_mode :: image_mode
  r_size :: nat
  r_rows :: "rgb list list"

definition make_image :: "qr_matrix \<Rightarrow> nat \<Rightarrow> rgb \<Rightarrow> rgb \<Rightarrow> raster" where
  "make_image m box fill background =
     (let size = (mx_count m + 2 * mx_border m) * box in
      \<lparr>r_mode = Mode_RGB, r_size = size,
       r_rows = map (\<lambda>y. map (\<lambda>x. render_pixel m box fill background x y) [0..<size])
                  [0..<size]\<rparr>)"

text \<open>
  Modelled from the spec: Pillow's \<open>convert("RGBA")\<close> and \<open>save(_, 'PNG')\<close> are not under
  src/. Section 4.3: the output is a PNG with an alpha channel, fully opaque. The file is
  represented by the image it decodes to.
\<close>

definition convert_rgba :: "rgb \<Rightarrow> rgba" where
  "convert_rgba p = (case p of (r, g, b) \<Rightarrow> (r, g, b, 255))"

definition save_png :: "raster \<Rightarrow> image_file" where
  "save_png img =
     \<lparr>file_format = PNG, file_mode = Mode_RGBA, file_width = r_size img,
      file_height = r_size img, file_pixels = map (map convert_rgba) (r_rows img)\<rparr>"

text \<open>Pixel \<open>(x, y)\<close> of a decoded file.\<close>

definition pixel :: "image_file \<Rightarrow> nat \<Rightarrow> nat \<Rightarrow> rgba" where
  "pixel f x y = file_pixels f ! y ! x"

section \<open>\<open>generate_qr\<close> (lines 245-263)\<close>

text \<open>The settings of the \<open>QRCode\<close> object the function builds (lines 252-257).\<close>

definition qr_params :: qr_settings where
  "qr_params = \<lparr>version = 1, error_correction = ERROR_CORRECT_H, box_size = 10, border = 4\<rparr>"

text \<open>
  \<open>Inr None\<close> is the \<open>return None\<close> of the \<open>except ValueError\<close> branch; \<open>Inl\<close> is an exception
  that leaves the function (the library's capacity error, which nothing catches);
  \<open>Inr (Some f)\<close> is the buffer holding the PNG.
\<close>

definition generate_qr :: "qr_lib \<Rightarrow> string \<Rightarrow> string \<Rightarrow> string \<Rightarrow> error + image_file option" where
  "generate_qr L data fill_color bg_color =
     (case getrgb L fill_color of
        None \<Rightarrow> Inr None
      | Some fill \<Rightarrow>
          (case getrgb L bg_color of
             None \<Rightarrow> Inr None
           | Some background \<Rightarrow>
               (case encode L qr_params data of
                  Inl e \<Rightarrow> Inl e
                | Inr qr \<Rightarrow>
                    Inr (Some (save_png (make_image qr (box_size qr_params) fill background))))))"

section \<open>The handlers\<close>

subsection \<open>\<open>send_with_main_menu\<close> (lines 80-92)\<close>

datatype update_kind = FromMessage | FromCallback

definition edit_message :: "env \<Rightarrow> message \<Rightarrow> keyboard \<Rightarrow> reply" where
  "edit_message E msg kb =
     (if text_editable E then EditMessageText msg kb else EditMessageCaption msg kb)"

definition send_with_main_menu :: "env \<Rightarrow> update_kind \<Rightarrow> message \<Rightarrow> reply" where
  "send_with_main_menu E k msg =
     (case k of
        FromMessage \<Rightarrow> ReplyText msg BackToMenuKeyboard
      | FromCallback \<Rightarrow> edit_message E msg BackToMenuKeyboard)"

subsection \<open>\<open>start\<close> (lines 96-128)\<close>

definition start :: "env \<Rightarrow> tg_user \<Rightarrow> bot_state \<Rightarrow> outcome" where
  "start E user s =
     (if \<not> db_available E then raises StoreUnavailable [] s
      else
        let s' = (case List.find (\<lambda>r. u_user_id r = str_int (tg_id user)) (users s) of
                    Some db_user \<Rightarrow> s
                  | None \<Rightarrow>
                      s\<lparr>users := users s @
                          [\<lparr>u_user_id = str_int (tg_id user), u_name = tg_first_name user,
                            u_created_at = utcnow E\<rparr>]\<rparr>);
            welcome_text = WelcomeUser (tg_first_name user)
        in if logo_exists E then returns [ReplyPhoto LogoFile welcome_text MainKeyboard] s'
           else returns [ReplyText welcome_text MainKeyboard] s')"

subsection \<open>\<open>button_handler\<close> (lines 132-206)\<close>

text \<open>The query of line 150: the user's rows, newest first, at most five. Rows with equal
  timestamps keep their table order.\<close>

definition recent_history :: "string \<Rightarrow> qr_history list \<Rightarrow> qr_history list" where
  "recent_history uid rows =
     take 5 (sort_key (\<lambda>r. - h_created_at r) (filter (\<lambda>r. h_user_id r = uid) rows))"

definition button_handler :: "env \<Rightarrow> tg_user \<Rightarrow> string \<Rightarrow> bot_state \<Rightarrow> outcome" where
  "button_handler E from_user qdata s =
     (if qdata = ''create_qr'' then
        returns [AnswerCallback, edit_message E ChooseColors ColorKeyboard] s
      else if qdata = ''show_history'' then
        (if \<not> db_available E then raises StoreUnavailable [AnswerCallback] s
         else
           let hist = recent_history (str_int (tg_id from_user)) (history s);
               msg = (if hist \<noteq> [] then HistoryList hist else NoHistory)
           in returns [AnswerCallback, send_with_main_menu E FromCallback msg] s)
      else if qdata = ''help'' then
        returns [AnswerCallback, send_with_main_menu E FromCallback HelpText] s
      else if qdata = ''donate'' then
        returns [AnswerCallback, send_with_main_menu E FromCallback DonateText] s
      else if qdata = ''main_menu'' then
        returns [AnswerCallback, edit_message E WelcomeAnon MainKeyboard] s
      else returns [AnswerCallback] s)"

subsection \<open>\<open>color_button_handler\<close> (lines 210-241)\<close>

definition color_button_handler :: "env \<Rightarrow> tg_user \<Rightarrow> string \<Rightarrow> bot_state \<Rightarrow> outcome" where
  "color_button_handler E from_user qdata s =
     (if startswith qdata ''color'' then
        (case str_split CHR ''|'' qdata of
           [_, fill_color, bg_color] \<Rightarrow>
             let d = user_data s (tg_id from_user);
                 d' = d(''fill_color'' \<mapsto> fill_color, ''bg_color'' \<mapsto> bg_color)
             in returns [AnswerCallback, send_with_main_menu E FromCallback ColorChosen]
                  (s\<lparr>user_data := (user_data s)(tg_id from_user := d')\<rparr>)
         | _ \<Rightarrow> raises ValueError [AnswerCallback] s)
      else if qdata = ''back_to_menu'' then
        returns [AnswerCallback, edit_message E WelcomeAnon MainKeyboard] s
      else returns [AnswerCallback] s)"

subsection \<open>\<open>handle_message\<close> (lines 267-302)\<close>

text \<open>Lines 271-279: the payload text and the two colour strings of the request, from the
  user's dictionary and the message text.\<close>

definition request_args :: "(string \<rightharpoonup> string) \<Rightarrow> string \<Rightarrow> string \<times> string \<times> string" where
  "request_args ud text =
     (let fill_color = dict_get ud ''fill_color'' ''black'';
          bg_color = dict_get ud ''bg_color'' ''white'';
          data = text
      in if CHR ''|'' \<in> set data then
           (let parts = str_split CHR ''|'' data in
            (parts ! 0,
             if length parts > 1 then parts ! 1 else fill_color,
             if length parts > 2 then parts ! 2 else bg_color))
         else (data, fill_color, bg_color))"

text \<open>Lines 281-302: generate, record, reply, and show the start menu again.\<close>

definition serve_request :: "qr_lib \<Rightarrow> env \<Rightarrow> tg_user \<Rightarrow> string \<times> string \<times> string \<Rightarrow> bot_state \<Rightarrow> outcome" where
  "serve_request L E user req s =
     (case req of (data, fill_color, bg_color) \<Rightarrow>
        (case generate_qr L data fill_color bg_color of
           Inl e \<Rightarrow> raises e [] s
         | Inr None \<Rightarrow> returns [] s
         | Inr (Some qr_image) \<Rightarrow>
             if \<not> db_available E then raises StoreUnavailable [] s
             else
               let row = \<lparr>h_user_id = str_int (tg_id user), h_data = data,
                          h_fill_color = fill_color, h_bg_color = bg_color,
                          h_created_at = utcnow E\<rparr>;
                   s1 = s\<lparr>history := history s @ [row]\<rparr>;
                   photo_reply = ReplyPhoto (QRPhoto qr_image) QRCaption BackToMenuKeyboard;
                   res = start E user s1
               in res\<lparr>sent := photo_reply # sent res\<rparr>))"

definition handle_message :: "qr_lib \<Rightarrow> env \<Rightarrow> tg_user \<Rightarrow> string \<Rightarrow> bot_state \<Rightarrow> outcome" where
  "handle_message L E user text s =
     serve_request L E user (request_args (user_data s (tg_id user)) text) s"

subsection \<open>Dispatch (lines 317-320) and runs\<close>







section \<open>A concrete instance for evaluation\<close>

text \<open>
  Modelled from the spec: Pillow's colour table and the capacity tables of the \<open>qrcode\<close>
  package are not under src/. Section 4.1: the resolver accepts the names of the
  configuration table (the colour values of \<open>COLORS\<close>, lines 22-28) and hex triplets, and
  rejects every other string. The capacities are those of byte mode at level H, the only
  level the program uses. Module placement is not specified; the instance stands a
  checkerboard of the version's size in its place, so that both colours occur.
\<close>

definition colormap :: "(string \<times> rgb) list" where
  "colormap =
     [(''black'', (0, 0, 0)), (''white'', (255, 255, 255)), (''red'', (255, 0, 0)),
      (''blue'', (0, 0, 255)), (''green'', (0, 128, 0))]"

definition hex_digit :: "char \<Rightarrow> nat option" where
  "hex_digit c = map_of (zip ''0123456789abcdef'' [0..<16] @ zip ''ABCDEF'' [10..<16]) c"

definition hex_byte :: "char \<Rightarrow> char \<Rightarrow> nat option" where
  "hex_byte a b =
     (case hex_digit a of
        None \<Rightarrow> None
      | Some h \<Rightarrow> (case hex_digit b of None \<Rightarrow> None | Some l \<Rightarrow> Some (16 * h + l)))"

definition table_getrgb :: "string \<Rightarrow> rgb option" where
  "table_getrgb s =
     (case map_of colormap s of
        Some c \<Rightarrow> Some c
      | None \<Rightarrow>
          if length s = 7 \<and> s ! 0 = CHR ''#'' then
            (case hex_byte (s ! 1) (s ! 2) of
               None \<Rightarrow> None
             | Some r \<Rightarrow>
                 (case hex_byte (s ! 3) (s ! 4) of
                    None \<Rightarrow> None
                  | Some g \<Rightarrow>
                      (case hex_byte (s ! 5) (s ! 6) of
                         None \<Rightarrow> None
                       | Some b \<Rightarrow> Some (r, g, b))))
          else None)"

definition capacity_H :: "nat list" where
  "capacity_H =
     [7, 14, 24, 34, 44, 58, 64, 84, 98, 119, 137, 155, 177, 194, 220, 250, 280, 310, 338,
      382, 403, 439, 461, 511, 535, 593, 625, 658, 698, 742, 790, 842, 898, 958, 983, 1051,
      1093, 1139, 1219, 1273]"

definition table_holds :: "ec_level \<Rightarrow> nat \<Rightarrow> string \<Rightarrow> bool" where
  "table_holds lvl v text =
     (lvl = ERROR_CORRECT_H \<and> 1 \<le> v \<and> v \<le> 40 \<and> length text \<le> capacity_H ! (v - 1))"

definition checker_grid :: "ec_level \<Rightarrow> nat \<Rightarrow> string \<Rightarrow> bool list list" where
  "checker_grid lvl v text =
     map (\<lambda>row. map (\<lambda>col. even (row + col)) [0..<17 + 4 * v]) [0..<17 + 4 * v]"

definition table_lib :: qr_lib where
  "table_lib = \<lparr>getrgb = table_getrgb, holds = table_holds, place = checker_grid\<rparr>"

definition env_up :: env where
  "env_up = \<lparr>db_available = True, logo_exists = True, utcnow = 1000, text_editable = True\<rparr>"

definition env_down :: env where
  "env_down = \<lparr>db_available = False, logo_exists = True, utcnow = 1000, text_editable = True\<rparr>"

definition alice :: tg_user where
  "alice = \<lparr>tg_id = 42, tg_first_name = ''Alice''\<rparr>"

definition fresh_state :: bot_state where
  "fresh_state = \<lparr>users = [], history = [], user_data = (\<lambda>_. Map.empty)\<rparr>"

subsection \<open>Observations on runs\<close>


text \<open>The QR images among the messages a handler sent.\<close>

fun qr_photos :: "reply list \<Rightarrow> image_file list" where
  "qr_photos [] = []"
| "qr_photos (ReplyPhoto (QRPhoto p) _ _ # rs) = p # qr_photos rs"
| "qr_photos (_ # rs) = qr_photos rs"

subsection \<open>Sample users, states and runs\<close>

definition bob :: tg_user where
  "bob = \<lparr>tg_id = 7, tg_first_name = ''Bob''\<rparr>"

text \<open>The state after Alice picked blue on white from the colour keyboard.\<close>

definition blue_state :: bot_state where
  "blue_state = final (color_button_handler env_up alice ''color|blue|white'' fresh_state)"


text \<open>A history table with six rows of Alice, written at different times and not in the
  order of their timestamps, and one row of a third user; Bob has none.\<close>

definition alice_row :: "int \<Rightarrow> string \<Rightarrow> qr_history" where
  "alice_row t d =
     \<lparr>h_user_id = ''42'', h_data = d, h_fill_color = ''black'', h_bg_color = ''white'',
      h_created_at = t\<rparr>"

definition busy_state :: bot_state where
  "busy_state =
     \<lparr>users = [],
      history =
        [alice_row 10 ''a'', alice_row 30 ''b'', alice_row 20 ''c'',
         \<lparr>h_user_id = ''99'', h_data = ''x'', h_fill_color = ''red'', h_bg_color = ''white'',
          h_created_at = 70\<rparr>,
         alice_row 60 ''d'', alice_row 50 ''e'', alice_row 40 ''f''],
      user_data = (\<lambda>_. Map.empty)\<rparr>"

text \<open>A later moment, with the logo file gone.\<close>

definition env_later :: env where
  "env_later = \<lparr>db_available = True, logo_exists = False, utcnow = 2000, text_editable = False\<rparr>"

text \<open>The matrix and the file of the text \<open>hello\<close>, black on white, in the instance.\<close>

definition hello_matrix :: qr_matrix where
  "hello_matrix =
     \<lparr>mx_version = 1, mx_level = ERROR_CORRECT_H, mx_count = 21, mx_border = 4,
      mx_modules = checker_grid ERROR_CORRECT_H 1 ''hello''\<rparr>"

definition hello_png :: image_file where
  "hello_png = save_png (make_image hello_matrix 10 (0, 0, 0) (255, 255, 255))"

section \<open>Properties of \<open>split\<close> and \<open>join\<close>\<close>

lemma str_split_not_Nil: "str_split sep s \<noteq> []"
  by (induction s) (auto split: list.splits)

lemma str_split_no_sep: "sep \<notin> set s \<Longrightarrow> str_split sep s = [s]"
  by (induction s) auto

lemma str_split_append:
  "sep \<notin> set a \<Longrightarrow> str_split sep (a @ sep # rest) = a # str_split sep rest"
  by (induction a) auto

lemma hd_str_split: "hd (str_split sep s) = takeWhile (\<lambda>c. c \<noteq> sep) s"
  by (induction s) (auto split: list.splits simp: str_split_not_Nil)

lemma nth0_str_split: "str_split sep s ! 0 = takeWhile (\<lambda>c. c \<noteq> sep) s"
  using hd_str_split [of sep s] str_split_not_Nil [of sep s] by (simp add: hd_conv_nth)

lemma str_split_parts_free: "p \<in> set (str_split sep s) \<Longrightarrow> sep \<notin> set p"
  by (induction s arbitrary: p) (auto split: list.splits if_splits)

lemma length_str_split_ge2: "sep \<in> set s \<Longrightarrow> 2 \<le> length (str_split sep s)"
  by (induction s) (auto split: list.splits simp: str_split_not_Nil Suc_le_eq)

lemma length_str_split: "length (str_split sep s) = Suc (count_list s sep)"
  by (induction s) (auto split: list.splits simp: str_split_not_Nil)

lemma str_split_join:
  "ps \<noteq> [] \<Longrightarrow> \<forall>p\<in>set ps. sep \<notin> set p \<Longrightarrow> str_split sep (str_join sep ps) = ps"
proof (induction sep ps rule: str_join.induct)
  case (1 sep)
  then show ?case by simp
next
  case (2 sep p)
  then show ?case by (simp add: str_split_no_sep)
next
  case (3 sep p q ps)
  then show ?case by (simp add: str_split_append)
qed

lemma str_split_nth_free:
  "i < length (str_split sep s) \<Longrightarrow> sep \<notin> set (str_split sep s ! i)"
  by (rule str_split_parts_free [OF nth_mem])

lemma take3_nth: "3 \<le> length xs \<Longrightarrow> take 3 xs = [xs ! 0, xs ! 1, xs ! 2]"
proof -
  assume "3 \<le> length xs"
  then obtain a b c rest where "xs = a # b # c # rest"
    by (cases xs; cases "tl xs"; cases "tl (tl xs)") auto
  then show ?thesis by (simp add: numeral_3_eq_3)
qed

section \<open>The arguments of a request\<close>

lemma request_args_plain:
  "CHR ''|'' \<notin> set text \<Longrightarrow>
   request_args ud text
     = (text, dict_get ud ''fill_color'' ''black'', dict_get ud ''bg_color'' ''white'')"
  by (simp add: request_args_def)

lemma request_args_pipe:
  assumes "CHR ''|'' \<in> set text"
  shows "request_args ud text =
           (takeWhile (\<lambda>c. c \<noteq> CHR ''|'') text,
            str_split CHR ''|'' text ! 1,
            if 2 < length (str_split CHR ''|'' text) then str_split CHR ''|'' text ! 2
            else dict_get ud ''bg_color'' ''white'')"
  using assms length_str_split_ge2 [OF assms]
  by (simp add: request_args_def Let_def nth0_str_split)

lemma request_args_three:
  assumes "CHR ''|'' \<notin> set t" "CHR ''|'' \<notin> set f" "CHR ''|'' \<notin> set b"
  shows "request_args ud (t @ CHR ''|'' # f @ CHR ''|'' # b) = (t, f, b)"
proof -
  have sp: "str_split CHR ''|'' (t @ CHR ''|'' # f @ CHR ''|'' # b) = [t, f, b]"
    using assms by (simp add: str_split_append str_split_no_sep)
  show ?thesis
    by (simp add: request_args_def Let_def sp)
qed

section \<open>What the handlers leave untouched\<close>

lemma start_frame:
  "user_data (final (start E u s)) = user_data s \<and> history (final (start E u s)) = history s"
  by (simp add: start_def raises_def returns_def Let_def split: option.splits)

lemma serve_request_user_data: "user_data (final (serve_request L E u req s)) = user_data s"
  by (cases req)
     (simp add: serve_request_def raises_def returns_def Let_def start_frame
           split: sum.splits option.splits)

lemma handle_message_user_data: "user_data (final (handle_message L E u text s)) = user_data s"
  by (simp add: handle_message_def serve_request_user_data)

lemma serve_request_failed:
  "\<forall>png. generate_qr L d f b \<noteq> Inr (Some png) \<Longrightarrow>
   final (serve_request L E u (d, f, b) s) = s \<and> sent (serve_request L E u (d, f, b) s) = []"
  by (auto simp add: serve_request_def raises_def returns_def split: sum.splits option.splits)

lemma generate_qr_None_iff:
  "generate_qr L d f b = Inr None \<longleftrightarrow> (getrgb L f = None \<or> getrgb L b = None)"
  by (auto simp add: generate_qr_def split: option.splits sum.splits)






text \<open>The QR images a handler sent.\<close>

lemma qr_photos_start: "qr_photos (sent (start E u s)) = []"
  by (simp add: start_def raises_def returns_def Let_def)

text \<open>What a served request leaves behind when the colours resolve, the text encodes and
  the store answers: the rendering of the matrix in the two colours goes out first, and the
  row of the request is appended to the history.\<close>

lemma serve_request_success:
  assumes "getrgb L f = Some cf" "getrgb L b = Some cb"
    and "encode L qr_params d = Inr m" "db_available E"
  shows "raised (serve_request L E u (d, f, b) s) = None
       \<and> hd (sent (serve_request L E u (d, f, b) s))
           = ReplyPhoto (QRPhoto (save_png (make_image m 10 cf cb))) QRCaption BackToMenuKeyboard
       \<and> qr_photos (sent (serve_request L E u (d, f, b) s))
           = [save_png (make_image m 10 cf cb)]
       \<and> history (final (serve_request L E u (d, f, b) s))
           = history s @ [\<lparr>h_user_id = str_int (tg_id u), h_data = d, h_fill_color = f,
                            h_bg_color = b, h_created_at = utcnow E\<rparr>]"
proof -
  have g: "generate_qr L d f b = Inr (Some (save_png (make_image m 10 cf cb)))"
    using assms(1,2,3) by (simp add: generate_qr_def) (simp add: qr_params_def)
  have r: "raised (start E u s') = None" for s'
    using assms(4) by (simp add: start_def returns_def Let_def)
  show ?thesis
    using assms(4) g r
    by (simp add: serve_request_def Let_def qr_photos_start start_frame)
qed

section \<open>Evaluations shared by the examples\<close>

lemma request_args_purplish:
  "request_args (user_data fresh_state (tg_id alice)) ''hello|purplish|white''
     = (''hello'', ''purplish'', ''white'')"
  by (simp add: request_args_def fresh_state_def dict_get_def)

lemma getrgb_purplish: "getrgb table_lib ''purplish'' = None"
  by (simp add: table_lib_def table_getrgb_def colormap_def)

lemma request_args_hello:
  "request_args (user_data fresh_state (tg_id alice)) ''hello''
     = (''hello'', ''black'', ''white'')"
  by (simp add: request_args_def fresh_state_def dict_get_def)

lemma getrgb_black: "getrgb table_lib ''black'' = Some (0, 0, 0)"
  by (simp add: table_lib_def table_getrgb_def colormap_def)

lemma getrgb_white: "getrgb table_lib ''white'' = Some (255, 255, 255)"
  by (simp add: table_lib_def table_getrgb_def colormap_def)

lemma best_fit_hello:
  "best_fit table_lib (error_correction qr_params) (version qr_params) ''hello'' = Some 1"
  by (simp add: best_fit_def qr_params_def table_lib_def table_holds_def capacity_H_def upt_rec)

lemma generate_qr_hello:
  "generate_qr table_lib ''hello'' ''black'' ''white'' = Inr (Some hello_png)"
  by (simp add: generate_qr_def getrgb_black getrgb_white encode_def best_fit_hello
        hello_png_def hello_matrix_def)
     (simp add: qr_params_def table_lib_def)

section \<open>Unresolvable colours\<close>

text \<open>
  Claim C1, as the code has it. When the fill or the background string of a request (the
  second and third pipe segments of the payload, or the stored or default colour where
  the payload has none) is not resolvable, \<open>generate_qr\<close> returns \<open>None\<close> and
  \<open>handle_message\<close> ends normally without sending anything and without changing the
  state: it neither falls back to other colours nor tells the user. No error reply
  exists in the handler.
\<close>

theorem unresolvable_color_silently_ignored:
  assumes "request_args (user_data s (tg_id user)) text = (data, fill_color, bg_color)"
    and "getrgb L fill_color = None \<or> getrgb L bg_color = None"
  shows "generate_qr L data fill_color bg_color = Inr None
       \<and> handle_message L E user text s = returns [] s"
proof -
  have g: "generate_qr L data fill_color bg_color = Inr None"
    using assms(2) by (simp add: generate_qr_None_iff)
  then show ?thesis
    using assms(1) by (simp add: handle_message_def serve_request_def)
qed

text \<open>Claim C1, the amended statement at the payload \<open>hello|purplish|white\<close> of a user
  with no stored colours.\<close>

theorem unresolvable_color_silently_ignored_witness:
  "request_args (user_data fresh_state (tg_id alice)) ''hello|purplish|white''
     = (''hello'', ''purplish'', ''white'')
   \<and> getrgb table_lib ''purplish'' = None
   \<and> generate_qr table_lib ''hello'' ''purplish'' ''white'' = Inr None
   \<and> handle_message table_lib env_up alice ''hello|purplish|white'' fresh_state
       = returns [] fresh_state"
  using unresolvable_color_silently_ignored
    [of fresh_state alice "''hello|purplish|white''" "''hello''" "''purplish''" "''white''"
        table_lib env_up]
    request_args_purplish getrgb_purplish
  by simp

text \<open>Claim C1 as stated fails: for the payload \<open>hello|purplish|white\<close> the handler sends
  no reply at all (so no plain-text error), and raises nothing.\<close>

theorem invalid_color_no_reply_counterexample:
  "sent (handle_message table_lib env_up alice ''hello|purplish|white'' fresh_state) = []
   \<and> raised (handle_message table_lib env_up alice ''hello|purplish|white'' fresh_state) = None"
  by (simp add: handle_message_def serve_request_def request_args_purplish
        generate_qr_def getrgb_purplish returns_def)

section \<open>History is written only after a successful render\<close>

text \<open>
  Claim C2. Whenever the encode of a text message fails, that is, \<open>generate_qr\<close> does not
  hand back an image (it returned \<open>None\<close> for an unresolvable colour, or the library
  raised its capacity error), \<open>handle_message\<close> leaves the history table as it was; indeed
  it leaves the whole state as it was. The row is appended (line 290) only inside the
  branch that holds the image.
\<close>

theorem failed_encode_writes_no_history:
  assumes "request_args (user_data s (tg_id user)) text = (data, fill_color, bg_color)"
    and "\<forall>png. generate_qr L data fill_color bg_color \<noteq> Inr (Some png)"
  shows "history (final (handle_message L E user text s)) = history s
       \<and> final (handle_message L E user text s) = s"
  using assms serve_request_failed [of L data fill_color bg_color E user s]
  by (simp add: handle_message_def)

text \<open>Claim C2 at the scenario of the specification: \<open>hello|purplish|white\<close> creates no
  history record.\<close>

theorem failed_encode_writes_no_history_witness:
  "request_args (user_data fresh_state (tg_id alice)) ''hello|purplish|white''
     = (''hello'', ''purplish'', ''white'')
   \<and> generate_qr table_lib ''hello'' ''purplish'' ''white'' = Inr None
   \<and> history (final (handle_message table_lib env_up alice ''hello|purplish|white'' fresh_state))
       = history fresh_state
   \<and> history fresh_state = []"
proof -
  have g: "generate_qr table_lib ''hello'' ''purplish'' ''white'' = Inr None"
    by (simp add: generate_qr_None_iff getrgb_purplish)
  then have "\<forall>png. generate_qr table_lib ''hello'' ''purplish'' ''white'' \<noteq> Inr (Some png)"
    by simp
  from failed_encode_writes_no_history [OF request_args_purplish this, of env_up]
  show ?thesis
    using g request_args_purplish by (simp add: fresh_state_def)
qed

section \<open>A failing store\<close>

text \<open>
  Claim C3, as the code has it. When the image was produced and the history append then
  fails, the exception of \<open>session.commit()\<close> (line 291) leaves \<open>handle_message\<close> before
  \<open>reply_photo\<close> (line 295) is reached: the handler sends nothing, neither the image nor
  a message about the failure, and the state is unchanged. Nothing in the handler catches
  a store failure.
\<close>

theorem store_failure_drops_image:
  assumes "request_args (user_data s (tg_id user)) text = (data, fill_color, bg_color)"
    and "generate_qr L data fill_color bg_color = Inr (Some png)"
    and "\<not> db_available E"
  shows "handle_message L E user text s = raises StoreUnavailable [] s"
  using assms by (simp add: handle_message_def serve_request_def)

text \<open>Claim C3, the amended statement for the text \<open>hello\<close> while the store is down.\<close>

theorem store_failure_drops_image_witness:
  "request_args (user_data fresh_state (tg_id alice)) ''hello'' = (''hello'', ''black'', ''white'')
   \<and> generate_qr table_lib ''hello'' ''black'' ''white'' = Inr (Some hello_png)
   \<and> \<not> db_available env_down
   \<and> handle_message table_lib env_down alice ''hello'' fresh_state
       = raises StoreUnavailable [] fresh_state"
proof -
  have d: "\<not> db_available env_down" by (simp add: env_down_def)
  show ?thesis
    using store_failure_drops_image [OF request_args_hello generate_qr_hello d]
      request_args_hello generate_qr_hello d
    by blast
qed

text \<open>Claim C3 as stated fails: the text \<open>hello\<close> encodes, the store is down, and the
  handler delivers no image and no message.\<close>

theorem store_failure_no_image_counterexample:
  "generate_qr table_lib ''hello'' ''black'' ''white'' = Inr (Some hello_png)
   \<and> sent (handle_message table_lib env_down alice ''hello'' fresh_state) = []
   \<and> qr_photos (sent (handle_message table_lib env_down alice ''hello'' fresh_state)) = []
   \<and> raised (handle_message table_lib env_down alice ''hello'' fresh_state)
       = Some StoreUnavailable"
proof -
  have "handle_message table_lib env_down alice ''hello'' fresh_state
          = raises StoreUnavailable [] fresh_state"
    by (simp add: handle_message_def serve_request_def request_args_hello generate_qr_hello
          env_down_def)
  then show ?thesis by (simp add: raises_def generate_qr_hello)
qed

section \<open>History retrieval\<close>

lemma recent_history_length: "length (recent_history uid rows) \<le> 5"
  by (simp add: recent_history_def)

lemma recent_history_subset:
  "set (recent_history uid rows) \<subseteq> {r \<in> set rows. h_user_id r = uid}"
proof -
  have "set (recent_history uid rows)
          \<subseteq> set (sort_key (\<lambda>r. - h_created_at r) (filter (\<lambda>r. h_user_id r = uid) rows))"
    unfolding recent_history_def by (rule set_take_subset)
  then show ?thesis by auto
qed

lemma recent_history_sorted:
  "sorted_wrt (\<lambda>a b. h_created_at b \<le> h_created_at a) (recent_history uid rows)"
proof -
  let ?xs = "sort_key (\<lambda>r. - h_created_at r) (filter (\<lambda>r. h_user_id r = uid) rows)"
  have "sorted (map (\<lambda>r. - h_created_at r) ?xs)"
    by (rule sorted_sort_key)
  then have "sorted_wrt (\<lambda>a b. h_created_at b \<le> h_created_at a) ?xs"
    by (simp add: sorted_map)
  then show ?thesis
    unfolding recent_history_def by (rule sorted_wrt_take)
qed

lemma recent_history_newest:
  assumes "r \<in> set rows" "h_user_id r = uid" "r \<notin> set (recent_history uid rows)"
    and "x \<in> set (recent_history uid rows)"
  shows "h_created_at r \<le> h_created_at x"
proof -
  let ?xs = "sort_key (\<lambda>r. - h_created_at r) (filter (\<lambda>r. h_user_id r = uid) rows)"
  have srt: "sorted_wrt (\<lambda>a b. h_created_at b \<le> h_created_at a) (take 5 ?xs @ drop 5 ?xs)"
    using sorted_sort_key [of "\<lambda>r. - h_created_at r" "filter (\<lambda>r. h_user_id r = uid) rows"]
    by (simp add: sorted_map)
  have "r \<in> set ?xs" using assms(1,2) by simp
  then have "r \<in> set (take 5 ?xs) \<union> set (drop 5 ?xs)"
    by (metis append_take_drop_id set_append)
  with assms(3) have "r \<in> set (drop 5 ?xs)"
    by (simp add: recent_history_def)
  moreover have "x \<in> set (take 5 ?xs)"
    using assms(4) by (simp add: recent_history_def)
  ultimately show ?thesis
    using srt unfolding sorted_wrt_append by blast
qed

lemma recent_history_none:
  "\<forall>r\<in>set rows. h_user_id r \<noteq> uid \<Longrightarrow> recent_history uid rows = []"
proof -
  assume "\<forall>r\<in>set rows. h_user_id r \<noteq> uid"
  then have "filter (\<lambda>r. h_user_id r = uid) rows = []"
    by (simp add: filter_empty_conv)
  then show ?thesis by (simp add: recent_history_def)
qed

text \<open>
  Claim C5. For every user, the query behind the history button (line 150) yields at most
  five rows, all of them that user's, ordered newest first by timestamp (every row of the
  user that is left out is no newer than any row returned), and while the store answers the
  handler sends them as one message. For a user with no history row the query yields the
  empty sequence, and the handler ends normally with the empty-state message.
\<close>

theorem show_history_at_most_five_newest_first:
  "length (recent_history (str_int (tg_id u)) (history s)) \<le> 5
   \<and> sorted_wrt (\<lambda>a b. h_created_at b \<le> h_created_at a)
        (recent_history (str_int (tg_id u)) (history s))
   \<and> set (recent_history (str_int (tg_id u)) (history s))
        \<subseteq> {r \<in> set (history s). h_user_id r = str_int (tg_id u)}
   \<and> (\<forall>r\<in>set (history s). \<forall>x\<in>set (recent_history (str_int (tg_id u)) (history s)).
          h_user_id r = str_int (tg_id u)
          \<and> r \<notin> set (recent_history (str_int (tg_id u)) (history s))
          \<longrightarrow> h_created_at r \<le> h_created_at x)
   \<and> (db_available E \<longrightarrow>
          button_handler E u ''show_history'' s
            = returns
                [AnswerCallback,
                 send_with_main_menu E FromCallback
                   (if recent_history (str_int (tg_id u)) (history s) = [] then NoHistory
                    else HistoryList (recent_history (str_int (tg_id u)) (history s)))] s)
   \<and> ((\<forall>r\<in>set (history s). h_user_id r \<noteq> str_int (tg_id u)) \<longrightarrow>
          recent_history (str_int (tg_id u)) (history s) = []
          \<and> (db_available E \<longrightarrow>
                raised (button_handler E u ''show_history'' s) = None
                \<and> sent (button_handler E u ''show_history'' s)
                    = [AnswerCallback, send_with_main_menu E FromCallback NoHistory]))"
proof -
  let ?h = "recent_history (str_int (tg_id u)) (history s)"
  have bh: "button_handler E u ''show_history'' s
              = returns [AnswerCallback,
                  send_with_main_menu E FromCallback (if ?h = [] then NoHistory else HistoryList ?h)] s"
    if "db_available E"
    using that by (simp add: button_handler_def Let_def)
  have none: "?h = [] \<and> (db_available E \<longrightarrow>
                raised (button_handler E u ''show_history'' s) = None
                \<and> sent (button_handler E u ''show_history'' s)
                    = [AnswerCallback, send_with_main_menu E FromCallback NoHistory])"
    if "\<forall>r\<in>set (history s). h_user_id r \<noteq> str_int (tg_id u)"
    using recent_history_none [OF that] bh by (simp add: returns_def)
  show ?thesis
    using recent_history_length [of "str_int (tg_id u)" "history s"]
      recent_history_sorted [of "str_int (tg_id u)" "history s"]
      recent_history_subset [of "str_int (tg_id u)" "history s"]
      recent_history_newest [of _ "history s" "str_int (tg_id u)"]
      bh none
    by blast
qed

lemma str_int_alice: "str_int (tg_id alice) = ''42''"
  by (simp add: alice_def str_int_def digit_char_def)

lemma str_int_bob: "str_int (tg_id bob) = ''7''"
  by (simp add: bob_def str_int_def digit_char_def)

lemma recent_history_alice:
  "recent_history ''42'' (history busy_state)
     = [alice_row 60 ''d'', alice_row 50 ''e'', alice_row 40 ''f'', alice_row 30 ''b'',
        alice_row 20 ''c'']"
  by (simp add: recent_history_def busy_state_def alice_row_def)

text \<open>Claim C5 on a table with six rows of Alice and none of Bob: Alice is shown her five
  newest rows, newest first, and the oldest is left out; Bob is shown the empty-state
  message.\<close>

theorem show_history_at_most_five_newest_first_witness:
  "db_available env_up
   \<and> recent_history (str_int (tg_id alice)) (history busy_state)
       = [alice_row 60 ''d'', alice_row 50 ''e'', alice_row 40 ''f'', alice_row 30 ''b'',
          alice_row 20 ''c'']
   \<and> length (recent_history (str_int (tg_id alice)) (history busy_state)) \<le> 5
   \<and> sorted_wrt (\<lambda>a b. h_created_at b \<le> h_created_at a)
        (recent_history (str_int (tg_id alice)) (history busy_state))
   \<and> h_created_at (alice_row 10 ''a'') \<le> h_created_at (alice_row 20 ''c'')
   \<and> button_handler env_up alice ''show_history'' busy_state
       = returns
           [AnswerCallback,
            send_with_main_menu env_up FromCallback
              (HistoryList (recent_history (str_int (tg_id alice)) (history busy_state)))]
           busy_state
   \<and> recent_history (str_int (tg_id bob)) (history busy_state) = []
   \<and> raised (button_handler env_up bob ''show_history'' busy_state) = None
   \<and> sent (button_handler env_up bob ''show_history'' busy_state)
       = [AnswerCallback, send_with_main_menu env_up FromCallback NoHistory]"
proof -
  note a = show_history_at_most_five_newest_first [of alice busy_state env_up]
  note b = show_history_at_most_five_newest_first [of bob busy_state env_up]
  have up: "db_available env_up" by (simp add: env_up_def)
  have ra: "recent_history (str_int (tg_id alice)) (history busy_state)
              = [alice_row 60 ''d'', alice_row 50 ''e'', alice_row 40 ''f'', alice_row 30 ''b'',
                 alice_row 20 ''c'']"
    by (simp only: str_int_alice recent_history_alice)
  have nonempty: "recent_history (str_int (tg_id alice)) (history busy_state) \<noteq> []"
    by (simp add: ra)
  have old1: "alice_row 10 ''a'' \<in> set (history busy_state)"
    by (simp add: busy_state_def)
  have old2: "h_user_id (alice_row 10 ''a'') = str_int (tg_id alice)"
    by (simp add: alice_row_def str_int_alice)
  have old3: "alice_row 10 ''a''
                \<notin> set (recent_history (str_int (tg_id alice)) (history busy_state))"
    unfolding ra by (simp add: alice_row_def)
  have old4: "alice_row 20 ''c''
                \<in> set (recent_history (str_int (tg_id alice)) (history busy_state))"
    unfolding ra by simp
  have nobob: "\<forall>r\<in>set (history busy_state). h_user_id r \<noteq> str_int (tg_id bob)"
    by (simp add: str_int_bob busy_state_def alice_row_def)
  from a have "length (recent_history (str_int (tg_id alice)) (history busy_state)) \<le> 5"
    by blast
  moreover from a
  have "sorted_wrt (\<lambda>a b. h_created_at b \<le> h_created_at a)
          (recent_history (str_int (tg_id alice)) (history busy_state))"
    by blast
  moreover from a old1 old2 old3 old4
  have "h_created_at (alice_row 10 ''a'') \<le> h_created_at (alice_row 20 ''c'')"
    by blast
  moreover from a up nonempty
  have "button_handler env_up alice ''show_history'' busy_state
       = returns
           [AnswerCallback,
            send_with_main_menu env_up FromCallback
              (HistoryList (recent_history (str_int (tg_id alice)) (history busy_state)))]
           busy_state"
    by simp
  moreover from b nobob up
  have "recent_history (str_int (tg_id bob)) (history busy_state) = []
      \<and> raised (button_handler env_up bob ''show_history'' busy_state) = None
      \<and> sent (button_handler env_up bob ''show_history'' busy_state)
          = [AnswerCallback, send_with_main_menu env_up FromCallback NoHistory]"
    by blast
  ultimately show ?thesis
    using up ra by blast
qed

section \<open>Version selection\<close>

lemma find_upt_Some:
  "List.find P [a..<b] = Some v \<longleftrightarrow> a \<le> v \<and> v < b \<and> P v \<and> (\<forall>w. a \<le> w \<and> w < v \<longrightarrow> \<not> P w)"
proof
  assume "List.find P [a..<b] = Some v"
  then obtain i where i: "i < length [a..<b]" "P ([a..<b] ! i)" "v = [a..<b] ! i"
    "\<forall>j<i. \<not> P ([a..<b] ! j)"
    unfolding find_Some_iff by blast
  have "\<not> P w" if "a \<le> w" "w < v" for w
  proof -
    from that i(1,3) have "w - a < i" "[a..<b] ! (w - a) = w" by auto
    with i(4) show ?thesis by metis
  qed
  with i(1,2,3) show "a \<le> v \<and> v < b \<and> P v \<and> (\<forall>w. a \<le> w \<and> w < v \<longrightarrow> \<not> P w)"
    by auto
next
  assume r: "a \<le> v \<and> v < b \<and> P v \<and> (\<forall>w. a \<le> w \<and> w < v \<longrightarrow> \<not> P w)"
  then have "v - a < length [a..<b]" "P ([a..<b] ! (v - a))" "v = [a..<b] ! (v - a)"
    "\<forall>j<v - a. \<not> P ([a..<b] ! j)"
    by auto
  then show "List.find P [a..<b] = Some v"
    unfolding find_Some_iff by blast
qed

lemma best_fit_Some:
  "best_fit L lvl v0 text = Some v \<longleftrightarrow>
     v0 \<le> v \<and> v \<le> 40 \<and> holds L lvl v text
     \<and> (\<forall>w. v0 \<le> w \<and> w < v \<longrightarrow> \<not> holds L lvl w text)"
  unfolding best_fit_def find_upt_Some by auto

lemma best_fit_exists:
  assumes "v0 \<le> v" "v \<le> 40" "holds L lvl v text"
  shows "\<exists>u. best_fit L lvl v0 text = Some u"
proof (cases "best_fit L lvl v0 text")
  case None
  then have "\<not> holds L lvl v text"
    using assms(1,2) unfolding best_fit_def find_None_iff by auto
  with assms(3) show ?thesis by simp
next
  case (Some u)
  then show ?thesis by blast
qed

lemma encode_level: "encode L cfg text = Inr m \<Longrightarrow> mx_level m = error_correction cfg"
  by (auto simp add: encode_def split: option.splits)

text \<open>
  Claim C4. Whenever a text does not fit version 1 at level H but fits some version up
  to 40, the encoder succeeds at a version above 1: the lowest version that holds the
  text. \<open>generate_qr\<close> then returns the rendering of that matrix (given colours that
  resolve). The level of every matrix \<open>generate_qr\<close> has built, for whatever text, is H.
\<close>

theorem version_grows_level_H:
  assumes "\<not> holds L ERROR_CORRECT_H 1 text"
    and "1 \<le> v" "v \<le> 40" "holds L ERROR_CORRECT_H v text"
    and "getrgb L fill_color = Some fill" "getrgb L bg_color = Some background"
  shows "(\<exists>m. encode L qr_params text = Inr m
             \<and> 1 < mx_version m \<and> mx_version m \<le> v
             \<and> holds L ERROR_CORRECT_H (mx_version m) text
             \<and> (\<forall>w. 1 \<le> w \<and> w < mx_version m \<longrightarrow> \<not> holds L ERROR_CORRECT_H w text)
             \<and> mx_level m = ERROR_CORRECT_H
             \<and> generate_qr L text fill_color bg_color
                 = Inr (Some (save_png (make_image m 10 fill background))))
       \<and> (\<forall>t m. encode L qr_params t = Inr m \<longrightarrow> mx_level m = ERROR_CORRECT_H)"
proof -
  obtain u where u: "best_fit L ERROR_CORRECT_H 1 text = Some u"
    using best_fit_exists [OF assms(2,3,4)] by blast
  then have props: "1 \<le> u" "u \<le> 40" "holds L ERROR_CORRECT_H u text"
    "\<forall>w. 1 \<le> w \<and> w < u \<longrightarrow> \<not> holds L ERROR_CORRECT_H w text"
    unfolding best_fit_Some by blast+
  have "u \<noteq> 1" using props(3) assms(1) by auto
  with props(1) have gt: "1 < u" by simp
  have le: "u \<le> v"
  proof (rule ccontr)
    assume "\<not> u \<le> v"
    with props(4) assms(2) have "\<not> holds L ERROR_CORRECT_H v text" by simp
    with assms(4) show False by simp
  qed
  let ?m = "\<lparr>mx_version = u, mx_level = ERROR_CORRECT_H, mx_count = 17 + 4 * u,
             mx_border = 4, mx_modules = place L ERROR_CORRECT_H u text\<rparr>"
  have enc: "encode L qr_params text = Inr ?m"
    using u by (simp add: encode_def qr_params_def)
  have gen: "generate_qr L text fill_color bg_color
               = Inr (Some (save_png (make_image ?m 10 fill background)))"
    using assms(5,6) enc by (simp add: generate_qr_def) (simp add: qr_params_def)
  have lvl: "\<forall>t m. encode L qr_params t = Inr m \<longrightarrow> mx_level m = ERROR_CORRECT_H"
    using encode_level [of L qr_params] by (simp add: qr_params_def)
  from enc gt le props(3,4) gen have
    "\<exists>m. encode L qr_params text = Inr m
        \<and> 1 < mx_version m \<and> mx_version m \<le> v
        \<and> holds L ERROR_CORRECT_H (mx_version m) text
        \<and> (\<forall>w. 1 \<le> w \<and> w < mx_version m \<longrightarrow> \<not> holds L ERROR_CORRECT_H w text)
        \<and> mx_level m = ERROR_CORRECT_H
        \<and> generate_qr L text fill_color bg_color
            = Inr (Some (save_png (make_image m 10 fill background)))"
    by (intro exI [of _ ?m]) simp
  with lvl show ?thesis by blast
qed

text \<open>Claim C4 for the eleven characters of \<open>hello world\<close>, which exceed the seven of
  version 1 at level H: the encoder settles on version 2.\<close>

theorem version_grows_level_H_witness:
  "\<not> holds table_lib ERROR_CORRECT_H 1 ''hello world''
   \<and> holds table_lib ERROR_CORRECT_H 2 ''hello world''
   \<and> getrgb table_lib ''black'' = Some (0, 0, 0)
   \<and> getrgb table_lib ''white'' = Some (255, 255, 255)
   \<and> (\<exists>m. encode table_lib qr_params ''hello world'' = Inr m
          \<and> mx_version m = 2 \<and> mx_level m = ERROR_CORRECT_H
          \<and> generate_qr table_lib ''hello world'' ''black'' ''white''
              = Inr (Some (save_png (make_image m 10 (0, 0, 0) (255, 255, 255)))))"
proof -
  have h1: "\<not> holds table_lib ERROR_CORRECT_H 1 ''hello world''"
    by (simp add: table_lib_def table_holds_def capacity_H_def)
  have h2: "holds table_lib ERROR_CORRECT_H 2 ''hello world''"
    by (simp add: table_lib_def table_holds_def capacity_H_def)
  have v: "(1::nat) \<le> 2" "(2::nat) \<le> 40" by simp_all
  from version_grows_level_H [OF h1 v h2 getrgb_black getrgb_white]
  obtain m where m: "encode table_lib qr_params ''hello world'' = Inr m"
    "1 < mx_version m" "mx_version m \<le> 2" "mx_level m = ERROR_CORRECT_H"
    "generate_qr table_lib ''hello world'' ''black'' ''white''
       = Inr (Some (save_png (make_image m 10 (0, 0, 0) (255, 255, 255))))"
    by blast
  from m(2,3) have "mx_version m = 2" by simp
  with m(1,4,5) h1 h2 getrgb_black getrgb_white show ?thesis by blast
qed

section \<open>Rendering\<close>

lemma pixel_save_png:
  assumes "x < (mx_count m + 2 * mx_border m) * box" "y < (mx_count m + 2 * mx_border m) * box"
  shows "pixel (save_png (make_image m box fill background)) x y
           = convert_rgba (render_pixel m box fill background x y)"
  using assms by (simp add: pixel_def save_png_def make_image_def Let_def)

lemma save_png_shape:
  "file_format (save_png (make_image m box fill background)) = PNG
   \<and> file_mode (save_png (make_image m box fill background)) = Mode_RGBA
   \<and> file_width (save_png (make_image m box fill background))
       = (mx_count m + 2 * mx_border m) * box
   \<and> file_height (save_png (make_image m box fill background))
       = (mx_count m + 2 * mx_border m) * box
   \<and> length (file_pixels (save_png (make_image m box fill background)))
       = (mx_count m + 2 * mx_border m) * box
   \<and> (\<forall>row\<in>set (file_pixels (save_png (make_image m box fill background))).
         length row = (mx_count m + 2 * mx_border m) * box)"
  by (auto simp add: save_png_def make_image_def Let_def)

lemma render_pixel_module:
  assumes "r < mx_count m" "c < mx_count m" "dx < box" "dy < box"
  shows "render_pixel m box fill background ((c + mx_border m) * box + dx)
           ((r + mx_border m) * box + dy)
           = (if is_dark (mx_modules m) r c then fill else background)"
proof -
  have "((c + mx_border m) * box + dx) div box = c + mx_border m"
    "((r + mx_border m) * box + dy) div box = r + mx_border m"
    using assms(3,4) by simp_all
  then show ?thesis
    using assms(1,2) by (simp add: render_pixel_def Let_def)
qed

lemma render_pixel_border:
  assumes "0 < box"
    and "x < mx_border m * box \<or> y < mx_border m * box
         \<or> (mx_border m + mx_count m) * box \<le> x \<or> (mx_border m + mx_count m) * box \<le> y"
  shows "render_pixel m box fill background x y = background"
proof -
  have "x div box < mx_border m \<or> y div box < mx_border m
        \<or> mx_border m + mx_count m \<le> x div box \<or> mx_border m + mx_count m \<le> y div box"
    using assms by (auto simp add: less_mult_imp_div_less div_le_mono
        dest: div_le_mono [where k = box])
  then show ?thesis
    by (auto simp add: render_pixel_def Let_def)
qed

lemma generate_qr_Some:
  assumes "generate_qr L data fill_color bg_color = Inr (Some png)"
  shows "\<exists>m fill background.
           encode L qr_params data = Inr m \<and> getrgb L fill_color = Some fill
           \<and> getrgb L bg_color = Some background
           \<and> png = save_png (make_image m 10 fill background)"
  using assms
  by (auto simp add: generate_qr_def qr_params_def split: option.splits sum.splits)

lemma encode_shape: "encode L cfg text = Inr m \<Longrightarrow> mx_border m = border cfg"
  by (auto simp add: encode_def split: option.splits)

lemma convert_rgba_alpha: "snd (snd (snd (convert_rgba p))) = 255"
  by (cases p) (simp add: convert_rgba_def)

text \<open>
  Claim C7. Whenever \<open>generate_qr\<close> returns an image, it is the rendering of the encoded
  matrix in the two resolved colours: a PNG file in mode RGBA, square, of
  \<open>(count + 2 \<cdot> 4) \<cdot> 10\<close> pixels per side; every pixel of the \<open>10 \<times> 10\<close> block of module
  \<open>(r, c)\<close> has the fill colour when the module is dark and the background colour when it
  is light; every pixel within 40 pixels (4 modules) of an edge has the background
  colour; and every pixel has alpha 255.
\<close>

theorem rendered_blocks_border_rgba_png:
  assumes "generate_qr L data fill_color bg_color = Inr (Some png)"
  shows "\<exists>m fill background.
           encode L qr_params data = Inr m
         \<and> getrgb L fill_color = Some fill \<and> getrgb L bg_color = Some background
         \<and> file_format png = PNG \<and> file_mode png = Mode_RGBA
         \<and> file_width png = (mx_count m + 2 * 4) * 10
         \<and> file_height png = (mx_count m + 2 * 4) * 10
         \<and> length (file_pixels png) = file_height png
         \<and> (\<forall>row\<in>set (file_pixels png). length row = file_width png)
         \<and> (\<forall>r c dx dy. r < mx_count m \<and> c < mx_count m \<and> dx < 10 \<and> dy < 10 \<longrightarrow>
               pixel png ((c + 4) * 10 + dx) ((r + 4) * 10 + dy)
                 = convert_rgba (if is_dark (mx_modules m) r c then fill else background))
         \<and> (\<forall>x y. x < file_width png \<and> y < file_height png
                  \<and> (x < 40 \<or> y < 40 \<or> file_width png - 40 \<le> x \<or> file_height png - 40 \<le> y)
               \<longrightarrow> pixel png x y = convert_rgba background)
         \<and> (\<forall>x y. x < file_width png \<and> y < file_height png
               \<longrightarrow> snd (snd (snd (pixel png x y))) = 255)"
proof -
  obtain m fill background where
    enc: "encode L qr_params data = Inr m"
    and f: "getrgb L fill_color = Some fill"
    and b: "getrgb L bg_color = Some background"
    and png: "png = save_png (make_image m 10 fill background)"
    using generate_qr_Some [OF assms] by blast
  have bd: "mx_border m = 4"
    using encode_shape [OF enc] by (simp add: qr_params_def)
  let ?W = "(mx_count m + 2 * 4) * 10"
  note shape = save_png_shape [of m 10 fill background, unfolded bd, folded png]
  have w: "file_width png = ?W" and h: "file_height png = ?W"
    using shape by simp_all
  have px: "pixel png x y = convert_rgba (render_pixel m 10 fill background x y)"
    if "x < ?W" "y < ?W" for x y
    using pixel_save_png [of x m 10 y fill background] that by (simp add: bd png)
  have blocks: "pixel png ((c + 4) * 10 + dx) ((r + 4) * 10 + dy)
                  = convert_rgba (if is_dark (mx_modules m) r c then fill else background)"
    if "r < mx_count m \<and> c < mx_count m \<and> dx < 10 \<and> dy < 10" for r c dx dy
  proof -
    have "(c + 4) * 10 + dx < ?W" "(r + 4) * 10 + dy < ?W"
      using that by simp_all
    then show ?thesis
      using px render_pixel_module [of r m c dx 10 dy fill background] that
      by (simp add: bd)
  qed
  have edge: "pixel png x y = convert_rgba background"
    if "x < file_width png \<and> y < file_height png
        \<and> (x < 40 \<or> y < 40 \<or> file_width png - 40 \<le> x \<or> file_height png - 40 \<le> y)" for x y
  proof -
    have "x < ?W" "y < ?W" using that by (simp_all add: w h)
    moreover have "x < mx_border m * 10 \<or> y < mx_border m * 10
         \<or> (mx_border m + mx_count m) * 10 \<le> x \<or> (mx_border m + mx_count m) * 10 \<le> y"
      using that by (simp add: w h bd)
    ultimately show ?thesis
      using px render_pixel_border [of 10 x m y fill background] by simp
  qed
  have alpha: "snd (snd (snd (pixel png x y))) = 255"
    if "x < file_width png \<and> y < file_height png" for x y
    using that px [of x y] by (simp add: w h convert_rgba_alpha)
  from enc f b shape w h blocks edge alpha show ?thesis
    by (intro exI [of _ m] exI [of _ fill] exI [of _ background]) simp
qed

lemma encode_hello: "encode table_lib qr_params ''hello'' = Inr hello_matrix"
  by (simp add: encode_def best_fit_hello hello_matrix_def)
     (simp add: qr_params_def table_lib_def)

text \<open>Claim C7 on the image of \<open>hello\<close>, black on white, over the 21 modules of version 1:
  290 pixels per side; the block of the dark module \<open>(0, 0)\<close> starts at pixel \<open>(40, 40)\<close>
  and is black, that of the light module \<open>(0, 1)\<close> starts at \<open>(50, 40)\<close> and is white, the
  corners are white, and all are opaque.\<close>

theorem rendered_blocks_border_rgba_png_witness:
  "generate_qr table_lib ''hello'' ''black'' ''white'' = Inr (Some hello_png)
   \<and> file_format hello_png = PNG \<and> file_mode hello_png = Mode_RGBA
   \<and> file_width hello_png = 290 \<and> file_height hello_png = 290
   \<and> length (file_pixels hello_png) = 290
   \<and> is_dark (mx_modules hello_matrix) 0 0 \<and> \<not> is_dark (mx_modules hello_matrix) 0 1
   \<and> pixel hello_png 40 40 = (0, 0, 0, 255)
   \<and> pixel hello_png 49 49 = (0, 0, 0, 255)
   \<and> pixel hello_png 50 40 = (255, 255, 255, 255)
   \<and> pixel hello_png 0 0 = (255, 255, 255, 255)
   \<and> pixel hello_png 289 289 = (255, 255, 255, 255)"
proof -
  from rendered_blocks_border_rgba_png [OF generate_qr_hello]
  obtain m fill background where
    enc: "encode table_lib qr_params ''hello'' = Inr m"
    and f: "getrgb table_lib ''black'' = Some fill"
    and b: "getrgb table_lib ''white'' = Some background"
    and fmt: "file_format hello_png = PNG" "file_mode hello_png = Mode_RGBA"
    and w: "file_width hello_png = (mx_count m + 2 * 4) * 10"
    and h: "file_height hello_png = (mx_count m + 2 * 4) * 10"
    and len: "length (file_pixels hello_png) = file_height hello_png"
    and blocks: "\<forall>r c dx dy. r < mx_count m \<and> c < mx_count m \<and> dx < 10 \<and> dy < 10 \<longrightarrow>
               pixel hello_png ((c + 4) * 10 + dx) ((r + 4) * 10 + dy)
                 = convert_rgba (if is_dark (mx_modules m) r c then fill else background)"
    and edge: "\<forall>x y. x < file_width hello_png \<and> y < file_height hello_png
                  \<and> (x < 40 \<or> y < 40 \<or> file_width hello_png - 40 \<le> x
                       \<or> file_height hello_png - 40 \<le> y)
               \<longrightarrow> pixel hello_png x y = convert_rgba background"
    by blast
  have m: "m = hello_matrix" using enc encode_hello by simp
  have fill: "fill = (0, 0, 0)" using f getrgb_black by simp
  have background: "background = (255, 255, 255)" using b getrgb_white by simp
  have n: "mx_count hello_matrix = 21" by (simp add: hello_matrix_def)
  have d00: "is_dark (mx_modules hello_matrix) 0 0"
    by (simp add: is_dark_def hello_matrix_def checker_grid_def)
  have d01: "\<not> is_dark (mx_modules hello_matrix) 0 1"
    by (simp add: is_dark_def hello_matrix_def checker_grid_def)
  have w': "file_width hello_png = 290" and h': "file_height hello_png = 290"
    using w h by (simp_all add: m n)
  have p1: "pixel hello_png 40 40 = (0, 0, 0, 255)"
    using blocks [rule_format, of 0 0 0 0] d00 by (simp add: m n fill convert_rgba_def)
  have p2: "pixel hello_png 49 49 = (0, 0, 0, 255)"
    using blocks [rule_format, of 0 0 9 9] d00 by (simp add: m n fill convert_rgba_def)
  have p3: "pixel hello_png 50 40 = (255, 255, 255, 255)"
    using blocks [rule_format, of 0 1 0 0] d01 by (simp add: m n background convert_rgba_def)
  have p4: "pixel hello_png 0 0 = (255, 255, 255, 255)"
    using edge [rule_format, of 0 0] by (simp add: w' h' background convert_rgba_def)
  have p5: "pixel hello_png 289 289 = (255, 255, 255, 255)"
    using edge [rule_format, of 289 289] by (simp add: w' h' background convert_rgba_def)
  from generate_qr_hello fmt w' h' len d00 d01 p1 p2 p3 p4 p5 show ?thesis
    by simp
qed

lemma getrgb_red: "getrgb table_lib ''red'' = Some (255, 0, 0)"
  by (simp add: table_lib_def table_getrgb_def colormap_def)

lemma getrgb_blue: "getrgb table_lib ''blue'' = Some (0, 0, 255)"
  by (simp add: table_lib_def table_getrgb_def colormap_def)

lemma db_available_env_up: "db_available env_up"
  by (simp add: env_up_def)

lemma db_available_env_later: "db_available env_later"
  by (simp add: env_later_def)

section \<open>Default colours\<close>





lemma handle_message_plain:
  "CHR ''|'' \<notin> set text \<Longrightarrow>
   handle_message L E user text s
     = serve_request L E user
         (text, dict_get (user_data s (tg_id user)) ''fill_color'' ''black'',
          dict_get (user_data s (tg_id user)) ''bg_color'' ''white'') s"
  by (simp add: handle_message_def request_args_plain)

section \<open>Inline overrides\<close>

text \<open>
  Claim C9. For every payload \<open>text|fill|background\<close> (three segments, none containing a
  pipe) whose two override colours resolve and whose text encodes, while the store
  answers: the image sent is the rendering of the text's matrix in the two override
  colours, whatever colours are stored, and the history row records the text and the
  two override strings. Handling the message leaves the user's stored colours (the whole
  \<open>user_data\<close>) unchanged, and a following message without a pipe is rendered in the
  stored colours and recorded with them. Only \<open>color_button_handler\<close> (lines 216-217)
  writes \<open>user_data\<close>.
\<close>

theorem inline_override_single_request:
  assumes free: "CHR ''|'' \<notin> set t" "CHR ''|'' \<notin> set f" "CHR ''|'' \<notin> set b"
    and cols: "getrgb L f = Some cf" "getrgb L b = Some cb"
    and enc: "encode L qr_params t = Inr m"
    and up: "db_available E"
    and free': "CHR ''|'' \<notin> set t'"
    and cols': "getrgb L (dict_get (user_data s (tg_id user)) ''fill_color'' ''black'') = Some sf"
      "getrgb L (dict_get (user_data s (tg_id user)) ''bg_color'' ''white'') = Some sb"
    and enc': "encode L qr_params t' = Inr m'"
    and up': "db_available E'"
  shows "raised (handle_message L E user (t @ CHR ''|'' # f @ CHR ''|'' # b) s) = None
       \<and> hd (sent (handle_message L E user (t @ CHR ''|'' # f @ CHR ''|'' # b) s))
           = ReplyPhoto (QRPhoto (save_png (make_image m 10 cf cb))) QRCaption BackToMenuKeyboard
       \<and> qr_photos (sent (handle_message L E user (t @ CHR ''|'' # f @ CHR ''|'' # b) s))
           = [save_png (make_image m 10 cf cb)]
       \<and> history (final (handle_message L E user (t @ CHR ''|'' # f @ CHR ''|'' # b) s))
           = history s
             @ [\<lparr>h_user_id = str_int (tg_id user), h_data = t, h_fill_color = f,
                 h_bg_color = b, h_created_at = utcnow E\<rparr>]
       \<and> user_data (final (handle_message L E user (t @ CHR ''|'' # f @ CHR ''|'' # b) s))
           = user_data s
       \<and> qr_photos (sent (handle_message L E' user t'
              (final (handle_message L E user (t @ CHR ''|'' # f @ CHR ''|'' # b) s))))
           = [save_png (make_image m' 10 sf sb)]
       \<and> history (final (handle_message L E' user t'
              (final (handle_message L E user (t @ CHR ''|'' # f @ CHR ''|'' # b) s))))
           = history s
             @ [\<lparr>h_user_id = str_int (tg_id user), h_data = t, h_fill_color = f,
                 h_bg_color = b, h_created_at = utcnow E\<rparr>,
                \<lparr>h_user_id = str_int (tg_id user), h_data = t',
                 h_fill_color = dict_get (user_data s (tg_id user)) ''fill_color'' ''black'',
                 h_bg_color = dict_get (user_data s (tg_id user)) ''bg_color'' ''white'',
                 h_created_at = utcnow E'\<rparr>]"
proof -
  let ?p = "t @ CHR ''|'' # f @ CHR ''|'' # b"
  let ?s1 = "final (handle_message L E user ?p s)"
  let ?sf = "dict_get (user_data s (tg_id user)) ''fill_color'' ''black''"
  let ?sb = "dict_get (user_data s (tg_id user)) ''bg_color'' ''white''"
  have h1: "handle_message L E user ?p s = serve_request L E user (t, f, b) s"
    using free by (simp add: handle_message_def request_args_three)
  have ud: "user_data ?s1 = user_data s"
    by (rule handle_message_user_data)
  have h2: "handle_message L E' user t' ?s1 = serve_request L E' user (t', ?sf, ?sb) ?s1"
    using handle_message_plain [OF free', of L E' user ?s1] by (simp only: ud)
  note a = serve_request_success [OF cols enc up, of user s, folded h1]
  note b = serve_request_success [OF cols' enc' up', of user ?s1, folded h2]
  from a have a1: "raised (handle_message L E user ?p s) = None"
    and a2: "hd (sent (handle_message L E user ?p s))
             = ReplyPhoto (QRPhoto (save_png (make_image m 10 cf cb))) QRCaption BackToMenuKeyboard"
    and a3: "qr_photos (sent (handle_message L E user ?p s)) = [save_png (make_image m 10 cf cb)]"
    and a4: "history ?s1 = history s
               @ [\<lparr>h_user_id = str_int (tg_id user), h_data = t, h_fill_color = f,
                   h_bg_color = b, h_created_at = utcnow E\<rparr>]"
    by blast+
  from b have b3: "qr_photos (sent (handle_message L E' user t' ?s1))
                     = [save_png (make_image m' 10 sf sb)]"
    and b4: "history (final (handle_message L E' user t' ?s1)) = history ?s1
               @ [\<lparr>h_user_id = str_int (tg_id user), h_data = t', h_fill_color = ?sf,
                   h_bg_color = ?sb, h_created_at = utcnow E'\<rparr>]"
    by blast+
  from b4 have b4': "history (final (handle_message L E' user t' ?s1))
      = history s
        @ [\<lparr>h_user_id = str_int (tg_id user), h_data = t, h_fill_color = f,
            h_bg_color = b, h_created_at = utcnow E\<rparr>,
           \<lparr>h_user_id = str_int (tg_id user), h_data = t', h_fill_color = ?sf,
            h_bg_color = ?sb, h_created_at = utcnow E'\<rparr>]"
    by (simp add: a4)
  from a1 a2 a3 a4 ud b3 b4' show ?thesis by blast
qed

text \<open>Claim C9 for Alice, who picked blue on white: \<open>hello|red|black\<close> is rendered red on
  black and recorded so, her stored colours stay, and her next message \<open>hello\<close> is
  rendered blue on white.\<close>

theorem inline_override_single_request_witness:
  "CHR ''|'' \<notin> set ''hello'' \<and> CHR ''|'' \<notin> set ''red'' \<and> CHR ''|'' \<notin> set ''black''
   \<and> getrgb table_lib ''red'' = Some (255, 0, 0)
   \<and> getrgb table_lib ''black'' = Some (0, 0, 0)
   \<and> encode table_lib qr_params ''hello'' = Inr hello_matrix
   \<and> db_available env_up \<and> db_available env_later
   \<and> dict_get (user_data blue_state (tg_id alice)) ''fill_color'' ''black'' = ''blue''
   \<and> dict_get (user_data blue_state (tg_id alice)) ''bg_color'' ''white'' = ''white''
   \<and> raised (handle_message table_lib env_up alice ''hello|red|black'' blue_state) = None
   \<and> qr_photos (sent (handle_message table_lib env_up alice ''hello|red|black'' blue_state))
       = [save_png (make_image hello_matrix 10 (255, 0, 0) (0, 0, 0))]
   \<and> history (final (handle_message table_lib env_up alice ''hello|red|black'' blue_state))
       = history blue_state
         @ [\<lparr>h_user_id = ''42'', h_data = ''hello'', h_fill_color = ''red'',
             h_bg_color = ''black'', h_created_at = 1000\<rparr>]
   \<and> user_data (final (handle_message table_lib env_up alice ''hello|red|black'' blue_state))
       = user_data blue_state
   \<and> qr_photos (sent (handle_message table_lib env_later alice ''hello''
          (final (handle_message table_lib env_up alice ''hello|red|black'' blue_state))))
       = [save_png (make_image hello_matrix 10 (0, 0, 255) (255, 255, 255))]
   \<and> history (final (handle_message table_lib env_later alice ''hello''
          (final (handle_message table_lib env_up alice ''hello|red|black'' blue_state))))
       = history blue_state
         @ [\<lparr>h_user_id = ''42'', h_data = ''hello'', h_fill_color = ''red'',
             h_bg_color = ''black'', h_created_at = 1000\<rparr>,
            \<lparr>h_user_id = ''42'', h_data = ''hello'', h_fill_color = ''blue'',
             h_bg_color = ''white'', h_created_at = 2000\<rparr>]"
proof -
  have free: "CHR ''|'' \<notin> set ''hello''" "CHR ''|'' \<notin> set ''red''"
    "CHR ''|'' \<notin> set ''black''"
    by simp_all
  have stored:
    "dict_get (user_data blue_state (tg_id alice)) ''fill_color'' ''black'' = ''blue''"
    "dict_get (user_data blue_state (tg_id alice)) ''bg_color'' ''white'' = ''white''"
    by (simp_all add: blue_state_def color_button_handler_def startswith_def returns_def
          fresh_state_def dict_get_def)
  have sf: "getrgb table_lib
              (dict_get (user_data blue_state (tg_id alice)) ''fill_color'' ''black'')
              = Some (0, 0, 255)"
    and sb: "getrgb table_lib
              (dict_get (user_data blue_state (tg_id alice)) ''bg_color'' ''white'')
              = Some (255, 255, 255)"
    by (simp_all only: stored getrgb_blue getrgb_white)
  have t1: "utcnow env_up = 1000" and t2: "utcnow env_later = 2000"
    by (simp_all add: env_up_def env_later_def)
  have lit: "''hello'' @ CHR ''|'' # ''red'' @ CHR ''|'' # ''black'' = ''hello|red|black''"
    by simp
  note inst = inline_override_single_request
    [OF free getrgb_red getrgb_black encode_hello db_available_env_up free(1) sf sb
        encode_hello db_available_env_later,
     unfolded lit stored str_int_alice t1 t2]
  from inst free getrgb_red getrgb_black encode_hello db_available_env_up
    db_available_env_later stored
  show ?thesis by blast
qed

section \<open>Payloads with more than three segments\<close>

text \<open>
  Claim C10. Take a payload that contains a pipe, whose colours resolve and whose first
  segment encodes, while the store answers. There is one segment more than there are
  pipes. The image sent is the rendering of the matrix of the part before the first pipe,
  in the colour of the second segment on the colour of the third (or on the stored
  background when there are two segments only), and the history row records that part
  and those strings: nothing after the first pipe is encoded. When the payload has more
  than two pipes (four or more segments), the row holds the first three segments, and the
  handler does exactly what it does for the payload cut after the third segment: the
  further segments have no effect at all.
\<close>

theorem extra_segments_discarded:
  assumes pipe: "CHR ''|'' \<in> set text"
    and cols: "getrgb L (str_split CHR ''|'' text ! 1) = Some cf"
      "getrgb L (if 2 < length (str_split CHR ''|'' text) then str_split CHR ''|'' text ! 2
                 else dict_get (user_data s (tg_id user)) ''bg_color'' ''white'') = Some cb"
    and enc: "encode L qr_params (takeWhile (\<lambda>c. c \<noteq> CHR ''|'') text) = Inr m"
    and up: "db_available E"
  shows "length (str_split CHR ''|'' text) = count_list text CHR ''|'' + 1
       \<and> str_split CHR ''|'' text ! 0 = takeWhile (\<lambda>c. c \<noteq> CHR ''|'') text
       \<and> hd (sent (handle_message L E user text s))
           = ReplyPhoto (QRPhoto (save_png (make_image m 10 cf cb))) QRCaption BackToMenuKeyboard
       \<and> qr_photos (sent (handle_message L E user text s)) = [save_png (make_image m 10 cf cb)]
       \<and> history (final (handle_message L E user text s))
           = history s
             @ [\<lparr>h_user_id = str_int (tg_id user),
                 h_data = takeWhile (\<lambda>c. c \<noteq> CHR ''|'') text,
                 h_fill_color = str_split CHR ''|'' text ! 1,
                 h_bg_color = (if 2 < length (str_split CHR ''|'' text)
                               then str_split CHR ''|'' text ! 2
                               else dict_get (user_data s (tg_id user)) ''bg_color'' ''white''),
                 h_created_at = utcnow E\<rparr>]
       \<and> (2 < count_list text CHR ''|'' \<longrightarrow>
            history (final (handle_message L E user text s))
              = history s
                @ [\<lparr>h_user_id = str_int (tg_id user), h_data = str_split CHR ''|'' text ! 0,
                    h_fill_color = str_split CHR ''|'' text ! 1,
                    h_bg_color = str_split CHR ''|'' text ! 2, h_created_at = utcnow E\<rparr>]
          \<and> handle_message L E user text s
              = handle_message L E user
                  (str_join CHR ''|'' (take 3 (str_split CHR ''|'' text))) s)"
proof -
  let ?parts = "str_split CHR ''|'' text"
  let ?d = "takeWhile (\<lambda>c. c \<noteq> CHR ''|'') text"
  let ?b = "if 2 < length ?parts then ?parts ! 2
            else dict_get (user_data s (tg_id user)) ''bg_color'' ''white''"
  have count: "length ?parts = count_list text CHR ''|'' + 1"
    by (simp add: length_str_split)
  have first: "?parts ! 0 = ?d"
    by (rule nth0_str_split)
  have h: "handle_message L E user text s = serve_request L E user (?d, ?parts ! 1, ?b) s"
    using pipe by (simp add: handle_message_def request_args_pipe)
  note a = serve_request_success [OF cols enc up, of user s, folded h]
  from a have a2: "hd (sent (handle_message L E user text s))
           = ReplyPhoto (QRPhoto (save_png (make_image m 10 cf cb))) QRCaption BackToMenuKeyboard"
    and a3: "qr_photos (sent (handle_message L E user text s))
               = [save_png (make_image m 10 cf cb)]"
    and a4: "history (final (handle_message L E user text s))
           = history s
             @ [\<lparr>h_user_id = str_int (tg_id user), h_data = ?d, h_fill_color = ?parts ! 1,
                 h_bg_color = ?b, h_created_at = utcnow E\<rparr>]"
    by blast+
  have rest: "history (final (handle_message L E user text s))
                = history s
                  @ [\<lparr>h_user_id = str_int (tg_id user), h_data = ?parts ! 0,
                      h_fill_color = ?parts ! 1, h_bg_color = ?parts ! 2,
                      h_created_at = utcnow E\<rparr>]
            \<and> handle_message L E user text s
                = handle_message L E user (str_join CHR ''|'' (take 3 ?parts)) s"
    if pipes: "2 < count_list text CHR ''|''"
  proof -
    have len: "4 \<le> length ?parts"
      using pipes count by simp
    have row: "history (final (handle_message L E user text s))
                = history s
                  @ [\<lparr>h_user_id = str_int (tg_id user), h_data = ?parts ! 0,
                      h_fill_color = ?parts ! 1, h_bg_color = ?parts ! 2,
                      h_created_at = utcnow E\<rparr>]"
      using a4 len by (simp add: first)
    have args: "request_args (user_data s (tg_id user)) text = (?parts ! 0, ?parts ! 1, ?parts ! 2)"
      using pipe len by (simp add: request_args_pipe nth0_str_split)
    have t3: "take 3 ?parts = [?parts ! 0, ?parts ! 1, ?parts ! 2]"
      using len by (simp add: take3_nth)
    have free: "CHR ''|'' \<notin> set (?parts ! 0)" "CHR ''|'' \<notin> set (?parts ! 1)"
               "CHR ''|'' \<notin> set (?parts ! 2)"
      using len
        str_split_nth_free [of 0 "CHR ''|''" "text"]
        str_split_nth_free [of 1 "CHR ''|''" "text"]
        str_split_nth_free [of 2 "CHR ''|''" "text"]
      by (simp_all add: str_split_not_Nil)
    have "request_args (user_data s (tg_id user)) (str_join CHR ''|'' (take 3 ?parts))
            = (?parts ! 0, ?parts ! 1, ?parts ! 2)"
      using free request_args_three [of "?parts ! 0" "?parts ! 1" "?parts ! 2"]
      by (simp add: t3)
    with args have "handle_message L E user text s
                = handle_message L E user (str_join CHR ''|'' (take 3 ?parts)) s"
      by (simp add: handle_message_def)
    with row show ?thesis by blast
  qed
  from count first a2 a3 a4 rest show ?thesis by blast
qed

text \<open>Claim C10 at the payload \<open>hello|red|white|extra|more\<close> with its four pipes: the image
  is that of \<open>hello\<close>, red on white, the row records \<open>hello\<close>, \<open>red\<close> and \<open>white\<close>, and the
  outcome is that of \<open>hello|red|white\<close>.\<close>

theorem extra_segments_discarded_witness:
  "CHR ''|'' \<in> set ''hello|red|white|extra|more''
   \<and> 2 < count_list ''hello|red|white|extra|more'' CHR ''|''
   \<and> getrgb table_lib ''red'' = Some (255, 0, 0)
   \<and> getrgb table_lib ''white'' = Some (255, 255, 255)
   \<and> encode table_lib qr_params ''hello'' = Inr hello_matrix
   \<and> db_available env_up
   \<and> length (str_split CHR ''|'' ''hello|red|white|extra|more'') = 5
   \<and> qr_photos (sent (handle_message table_lib env_up alice ''hello|red|white|extra|more''
                         fresh_state))
       = [save_png (make_image hello_matrix 10 (255, 0, 0) (255, 255, 255))]
   \<and> history (final (handle_message table_lib env_up alice ''hello|red|white|extra|more''
                       fresh_state))
       = [\<lparr>h_user_id = ''42'', h_data = ''hello'', h_fill_color = ''red'',
           h_bg_color = ''white'', h_created_at = 1000\<rparr>]
   \<and> handle_message table_lib env_up alice ''hello|red|white|extra|more'' fresh_state
       = handle_message table_lib env_up alice ''hello|red|white'' fresh_state"
proof -
  let ?p = "''hello|red|white|extra|more''"
  have pipe: "CHR ''|'' \<in> set ?p"
    by simp
  have cnt: "count_list ?p CHR ''|'' = 4"
    by simp
  have pipes: "2 < count_list ?p CHR ''|''"
    by (simp only: cnt)
  have sp: "str_split CHR ''|'' ?p = [''hello'', ''red'', ''white'', ''extra'', ''more'']"
    by simp
  have p0: "str_split CHR ''|'' ?p ! 0 = ''hello''" and p1: "str_split CHR ''|'' ?p ! 1 = ''red''"
    and p2: "str_split CHR ''|'' ?p ! 2 = ''white''"
    and len: "length (str_split CHR ''|'' ?p) = 5"
    by (simp_all add: sp)
  have cut: "str_join CHR ''|'' (take 3 (str_split CHR ''|'' ?p)) = ''hello|red|white''"
    by (simp add: sp)
  have tw: "takeWhile (\<lambda>c. c \<noteq> CHR ''|'') ?p = ''hello''"
    by simp
  have c1: "getrgb table_lib (str_split CHR ''|'' ?p ! 1) = Some (255, 0, 0)"
    by (simp only: p1 getrgb_red)
  have c2: "getrgb table_lib
              (if 2 < length (str_split CHR ''|'' ?p) then str_split CHR ''|'' ?p ! 2
               else dict_get (user_data fresh_state (tg_id alice)) ''bg_color'' ''white'')
              = Some (255, 255, 255)"
    by (simp add: len p2 getrgb_white)
  have e: "encode table_lib qr_params (takeWhile (\<lambda>c. c \<noteq> CHR ''|'') ?p) = Inr hello_matrix"
    by (simp only: tw encode_hello)
  have t1: "utcnow env_up = 1000" and h0: "history fresh_state = []"
    by (simp_all add: env_up_def fresh_state_def)
  note inst = extra_segments_discarded [OF pipe c1 c2 e db_available_env_up]
  from inst have "qr_photos (sent (handle_message table_lib env_up alice ?p fresh_state))
       = [save_png (make_image hello_matrix 10 (255, 0, 0) (255, 255, 255))]"
    by blast
  moreover from inst pipes
  have "history (final (handle_message table_lib env_up alice ?p fresh_state))
          = history fresh_state
            @ [\<lparr>h_user_id = str_int (tg_id alice), h_data = str_split CHR ''|'' ?p ! 0,
                h_fill_color = str_split CHR ''|'' ?p ! 1,
                h_bg_color = str_split CHR ''|'' ?p ! 2, h_created_at = utcnow env_up\<rparr>]"
    by blast
  then have "history (final (handle_message table_lib env_up alice ?p fresh_state))
       = [\<lparr>h_user_id = ''42'', h_data = ''hello'', h_fill_color = ''red'',
           h_bg_color = ''white'', h_created_at = 1000\<rparr>]"
    by (simp only: p0 p1 p2 t1 h0 str_int_alice append_Nil)
  moreover from inst pipes
  have "handle_message table_lib env_up alice ?p fresh_state
          = handle_message table_lib env_up alice
              (str_join CHR ''|'' (take 3 (str_split CHR ''|'' ?p))) fresh_state"
    by blast
  then have "handle_message table_lib env_up alice ?p fresh_state
               = handle_message table_lib env_up alice ''hello|red|white'' fresh_state"
    by (simp only: cut)
  ultimately show ?thesis
    using pipe pipes getrgb_red getrgb_white encode_hello db_available_env_up len by blast
qed

end
